theory Spec2Isabelle
  imports Complex_Main
begin

section \<open>Conventions of the embedding\<close>

text \<open>
  The development embeds two translation units of the GCAM objects library:
  \<^verbatim>\<open>objects/emissions/source/ghg_mac.cpp\<close> (class \<^verbatim>\<open>GhgMAC\<close>) and
  \<^verbatim>\<open>objects/technologies/source/building_heat_cool_dmd_technology.cpp\<close>
  (class \<^verbatim>\<open>BuildingHeatCoolDmdTechnology\<close>).

  \<^item> A C++ \<^verbatim>\<open>double\<close> is a \<^typ>\<open>real\<close>: arithmetic is exact, there is no rounding, no
    infinity and no NaN. A floating-point division by zero does not trap in C++; in HOL
    \<open>x / 0 = 0\<close>. No statement below depends on the value of such a quotient: where a
    result is computed through one, the statement assumes the divisor nonzero or has the
    same quotient on both sides.
  \<^item> A C++ \<^verbatim>\<open>int\<close> is an \<^typ>\<open>int\<close>. Signed overflow is undefined in C++ and is only
    reachable at the extreme ends of the 32-bit range; the model computes the mathematical
    value there.
  \<^item> Integer division truncates towards zero (\<open>trunc_div\<close>); an integer division by zero
    is undefined behaviour (a trap on the usual targets) and is the error \<open>DivideByZero\<close>.
  \<^item> The curve is held through an owning pointer (\<^verbatim>\<open>auto_ptr<Curve>\<close>): the model has an
    explicit heap of curve objects, a null pointer is \<open>None\<close>, and every dereference can
    fail.
  \<^item> Writing to the logger appends to a list of log entries that the function returns.
\<close>

datatype error = NullPointer | DanglingPointer | DivideByZero

definition bindE :: "error + 'a \<Rightarrow> ('a \<Rightarrow> error + 'b) \<Rightarrow> error + 'b" where
  "bindE m f = (case m of Inl e \<Rightarrow> Inl e | Inr x \<Rightarrow> f x)"

definition trunc_div :: "int \<Rightarrow> int \<Rightarrow> int" where
  \<comment> \<open>C++ \<^verbatim>\<open>a / b\<close> on \<^verbatim>\<open>int\<close> with \<open>b \<noteq> 0\<close>: the quotient rounded towards zero.\<close>
  "trunc_div a b = sgn a * sgn b * (\<bar>a\<bar> div \<bar>b\<bar>)"

definition int_div :: "int \<Rightarrow> int \<Rightarrow> error + int" where
  "int_div a b = (if b = 0 then Inl DivideByZero else Inr (trunc_div a b))"

datatype log_level = WARNING | ERROR

type_synonym log = "(log_level \<times> string) list"

definition DBL_MAX :: real where
  \<comment> \<open>\<^verbatim>\<open><cfloat>\<close>: the largest finite IEEE-754 double.\<close>
  "DBL_MAX = (2 - 1 / 2 ^ 52) * 2 ^ 1023"

section \<open>External collaborators\<close>

subsection \<open>The curve interface\<close>

text \<open>
  \<^verbatim>\<open>Curve\<close> (\<^verbatim>\<open>util/curves/include/curve.h\<close>) is an abstract class; \<^verbatim>\<open>GhgMAC\<close> calls
  its virtual members \<^verbatim>\<open>getY\<close>, \<^verbatim>\<open>getMinX\<close>, \<^verbatim>\<open>getMaxX\<close>, \<^verbatim>\<open>getSortedPairs\<close> and
  \<^verbatim>\<open>clone\<close>. A curve object is the record of what these members return.
\<close>

record curve =
  getY :: "real \<Rightarrow> real"
  getMinX :: real
  getMaxX :: real
  getSortedPairs :: "(real \<times> real) list"

definition curve_clone :: "curve \<Rightarrow> curve" where
  \<comment> \<open>Modelled from the spec: \<^verbatim>\<open>Curve::clone\<close> is declared outside the embedded files; the
      spec's curve abstraction gives \<open>clone() -> Curve (deep copy)\<close>, a new object that
      answers every query as the original does.\<close>
  "curve_clone c = c"

fun segment_value :: "real \<times> real \<Rightarrow> real \<times> real \<Rightarrow> real \<Rightarrow> real" where
  \<comment> \<open>Modelled from the spec: the line through two calibration points, part of the
      piecewise-linear interpolation of \<^verbatim>\<open>PointSetCurve::getY\<close>.\<close>
  "segment_value (x1, y1) (x2, y2) x = y1 + (y2 - y1) * (x - x1) / (x2 - x1)"

fun interpolate :: "(real \<times> real) list \<Rightarrow> real \<Rightarrow> real" where
  \<comment> \<open>Modelled from the spec: \<^verbatim>\<open>PointSetCurve::getY\<close> over the points sorted by x;
      \<open>- DBL_MAX\<close> is the failure sentinel.\<close>
  "interpolate [] x = - DBL_MAX"
| "interpolate [p] x = (if x = fst p then snd p else - DBL_MAX)"
| "interpolate [p, q] x = segment_value p q x"
| "interpolate (p # q # r # ps) x =
     (if x \<le> fst q then segment_value p q x else interpolate (q # r # ps) x)"

definition PointSetCurve :: "(real \<times> real) list \<Rightarrow> curve" where
  \<comment> \<open>Modelled from the spec: \<^verbatim>\<open>PointSetCurve\<close> and \<^verbatim>\<open>ExplicitPointSet\<close> are defined outside
      the embedded files. The spec describes an ordered set of (x, y) points queryable for
      \<open>getY(x)\<close> (piecewise-linear interpolation, a sentinel on failure), \<open>getMinX()\<close> and
      \<open>getMaxX()\<close>; \<^verbatim>\<open>GhgMAC::initCalc\<close> reads \<open>getMaxX() = -DBL_MAX\<close> as "no data", and
      \<^verbatim>\<open>GhgMAC::getMACValue\<close> says that \<open>getY\<close> continues the line beyond the last point.
      Below the first point the first segment is continued in the same way.\<close>
  "PointSetCurve pts =
     (let s = sort_key fst pts
      in \<lparr> getY = interpolate s,
           getMinX = (if s = [] then DBL_MAX else fst (hd s)),
           getMaxX = (if s = [] then - DBL_MAX else fst (last s)),
           getSortedPairs = s \<rparr>)"

subsection \<open>The heap of curve objects\<close>

type_synonym addr = nat

type_synonym heap = "curve option list"

definition alloc :: "heap \<Rightarrow> curve \<Rightarrow> addr \<times> heap" where
  \<comment> \<open>\<^verbatim>\<open>new\<close>: the object is placed at an address no live or freed object has.\<close>
  "alloc h c = (length h, h @ [Some c])"

definition free :: "heap \<Rightarrow> addr \<Rightarrow> heap" where
  "free h a = h[a := None]"

definition deref :: "heap \<Rightarrow> addr option \<Rightarrow> error + curve" where
  "deref h p =
     (case p of
        None \<Rightarrow> Inl NullPointer
      | Some a \<Rightarrow>
          if a < length h
          then (case h ! a of None \<Rightarrow> Inl DanglingPointer | Some c \<Rightarrow> Inr c)
          else Inl DanglingPointer)"

subsection \<open>The scenario: marketplace and model time\<close>

text \<open>
  \<^verbatim>\<open>scenario->getMarketplace()\<close> and \<^verbatim>\<open>scenario->getModeltime()\<close> are defined outside the
  embedded files and are parameters of the model. \<open>getPrice\<close> takes the market name, the
  region, the period and the \<^verbatim>\<open>mustExist\<close> flag (which defaults to \<^verbatim>\<open>true\<close>);
  \<open>getper_to_yr\<close> maps a period index to its calendar year.
\<close>

record scenario =
  getPrice :: "string \<Rightarrow> string \<Rightarrow> int \<Rightarrow> bool \<Rightarrow> real"
  NO_MARKET_PRICE :: real
  getper_to_yr :: "int \<Rightarrow> int"
  getBasePeriod :: int
  getEndYear :: int

section \<open>GhgMAC\<close>

record GhgMAC =
  macCurve :: "addr option"
  phaseIn :: real
  fuelShiftRange :: real
  costReductionRate :: real
  baseCostYear :: int
  finalReduction :: real
  finalReductionYear :: int
  noBelowZero :: bool
  curveShiftFuelName :: string

definition GhgMAC_default :: "scenario \<Rightarrow> GhgMAC" where
  \<comment> \<open>\<^verbatim>\<open>GhgMAC::GhgMAC()\<close>; the \<^verbatim>\<open>auto_ptr\<close> starts out null.\<close>
  "GhgMAC_default scn =
     \<lparr> macCurve = None,
       phaseIn = 1,
       fuelShiftRange = 0,
       costReductionRate = 0,
       baseCostYear = getper_to_yr scn (getBasePeriod scn),
       finalReduction = 0,
       finalReductionYear = getEndYear scn,
       noBelowZero = False,
       curveShiftFuelName = [] \<rparr>"

text \<open>
  A child of the DOM node handed to \<^verbatim>\<open>XMLParse\<close>: its name and what the
  \<^verbatim>\<open>XMLHelper\<close> accessors read from it (the value as \<^verbatim>\<open>double\<close>, \<^verbatim>\<open>int\<close>,
  \<^verbatim>\<open>string\<close> and \<^verbatim>\<open>bool\<close>, and the attribute \<^verbatim>\<open>tax\<close>).
\<close>

record dom_node =
  nodeName :: string
  doubleValue :: real
  intValue :: int
  stringValue :: string
  boolValue :: bool
  taxAttr :: real

definition XML_NAME :: string where
  "XML_NAME = ''MAC''"

definition parseChild ::
  "GhgMAC \<times> (real \<times> real) list \<times> log \<Rightarrow> dom_node \<Rightarrow> GhgMAC \<times> (real \<times> real) list \<times> log" where
  \<comment> \<open>One iteration of the loop of \<^verbatim>\<open>XMLParse\<close>, on the child \<^verbatim>\<open>curr\<close>.\<close>
  "parseChild st currNode =
     (case st of (this, currPoints, mainLog) \<Rightarrow>
        if nodeName currNode = ''#text'' then (this, currPoints, mainLog)
        else if nodeName currNode = ''phaseIn''
          then (this\<lparr>phaseIn := doubleValue currNode\<rparr>, currPoints, mainLog)
        else if nodeName currNode = ''costReductionRate''
          then (this\<lparr>costReductionRate := doubleValue currNode\<rparr>, currPoints, mainLog)
        else if nodeName currNode = ''baseCostYear''
          then (this\<lparr>baseCostYear := intValue currNode\<rparr>, currPoints, mainLog)
        else if nodeName currNode = ''fuelShiftRange''
          then (this\<lparr>fuelShiftRange := doubleValue currNode\<rparr>, currPoints, mainLog)
        else if nodeName currNode = ''curveShiftFuelName''
          then (this\<lparr>curveShiftFuelName := stringValue currNode\<rparr>, currPoints, mainLog)
        else if nodeName currNode = ''finalReduction''
          then (this\<lparr>finalReduction := doubleValue currNode\<rparr>, currPoints, mainLog)
        else if nodeName currNode = ''finalReductionYear''
          then (this\<lparr>finalReductionYear := intValue currNode\<rparr>, currPoints, mainLog)
        else if nodeName currNode = ''noBelowZero''
          then (this\<lparr>noBelowZero := boolValue currNode\<rparr>, currPoints, mainLog)
        else if nodeName currNode = ''reduction''
          then (this, currPoints @ [(taxAttr currNode, doubleValue currNode)], mainLog)
        else (this, currPoints,
              mainLog @ [(WARNING, ''Unrecognized text string: '' @ nodeName currNode
                                   @ '' found while parsing '' @ XML_NAME @ ''.'')]))"

definition reset :: "heap \<Rightarrow> GhgMAC \<Rightarrow> addr \<Rightarrow> heap \<times> GhgMAC" where
  \<comment> \<open>\<^verbatim>\<open>macCurve.reset( p )\<close>: deletes the curve owned so far, if there is one and it is not
      \<open>p\<close>, and takes ownership of \<open>p\<close>.\<close>
  "reset h this p =
     ((case macCurve this of
         None \<Rightarrow> h
       | Some old \<Rightarrow> if old = p then h else free h old),
      this\<lparr>macCurve := Some p\<rparr>)"

definition XMLParse :: "heap \<Rightarrow> GhgMAC \<Rightarrow> dom_node list \<Rightarrow> heap \<times> GhgMAC \<times> log" where
  "XMLParse h this nodeList =
     (case foldl parseChild (this, [], []) nodeList of (this1, currPoints, mainLog) \<Rightarrow>
        let (p, h1) = alloc h (PointSetCurve currPoints);
            (h2, this2) = reset h1 this1 p
        in (h2, this2, mainLog))"

definition initCalc :: "heap \<Rightarrow> GhgMAC \<Rightarrow> string \<Rightarrow> error + log" where
  "initCalc h this ghgName =
     bindE (deref h (macCurve this)) (\<lambda>c.
       if getMaxX c = - DBL_MAX
       then Inr [(ERROR, '' MAC for gas '' @ ghgName @ '' appears to have no data. '')]
       else Inr [])"

definition copy :: "heap \<Rightarrow> GhgMAC \<Rightarrow> GhgMAC \<Rightarrow> error + (heap \<times> GhgMAC)" where
  "copy h this other =
     bindE (deref h (macCurve other)) (\<lambda>oc.
       let (p, h1) = alloc h (curve_clone oc);
           (h2, this1) = reset h1 this p
       in Inr (h2, this1\<lparr> phaseIn := phaseIn other,
                         fuelShiftRange := fuelShiftRange other,
                         costReductionRate := costReductionRate other,
                         baseCostYear := baseCostYear other,
                         finalReduction := finalReduction other,
                         finalReductionYear := finalReductionYear other,
                         noBelowZero := noBelowZero other,
                         curveShiftFuelName := curveShiftFuelName other \<rparr>))"

definition GhgMAC_copy_ctor :: "heap \<Rightarrow> GhgMAC \<Rightarrow> error + (heap \<times> GhgMAC)" where
  \<comment> \<open>\<^verbatim>\<open>GhgMAC::GhgMAC( const GhgMAC& other )\<close>: the new object's pointer is null and its
      other members are indeterminate until \<open>copy\<close> assigns every one of them; they are
      written as zeros here.\<close>
  "GhgMAC_copy_ctor h other =
     copy h \<lparr> macCurve = None, phaseIn = 0, fuelShiftRange = 0, costReductionRate = 0,
              baseCostYear = 0, finalReduction = 0, finalReductionYear = 0,
              noBelowZero = False, curveShiftFuelName = [] \<rparr> other"

definition clone :: "heap \<Rightarrow> GhgMAC \<Rightarrow> error + (heap \<times> GhgMAC)" where
  "clone h this = GhgMAC_copy_ctor h this"

definition adjustPhaseIn :: "GhgMAC \<Rightarrow> int \<Rightarrow> real" where
  "adjustPhaseIn this period =
     (let mult = 1
      in if real_of_int (period - 1) < phaseIn this \<and> phaseIn this \<ge> 1
         then real_of_int (period - 1) / phaseIn this
         else mult)"

definition adjustTechCh :: "GhgMAC \<Rightarrow> int \<Rightarrow> int \<Rightarrow> real \<Rightarrow> error + real" where
  \<comment> \<open>\<^verbatim>\<open>1 / ( finalReductionPeriod - 2 )\<close> has two \<^verbatim>\<open>int\<close> operands: it is an integer
      division, converted to \<^verbatim>\<open>double\<close> only for the product.\<close>
  "adjustTechCh this period finalReductionPeriod maxReduction =
     (let change = maxReduction / finalReduction this
      in if period \<le> finalReductionPeriod
         then bindE (int_div 1 (finalReductionPeriod - 2)) (\<lambda>q.
                Inr (change * real_of_int q * real_of_int (period - 2)))
         else Inr change)"

definition shiftNatGas ::
  "heap \<Rightarrow> scenario \<Rightarrow> GhgMAC \<Rightarrow> int \<Rightarrow> string \<Rightarrow> real \<Rightarrow> error + real" where
  \<comment> \<open>\<^verbatim>\<open>3 / 5\<close> and \<^verbatim>\<open>1 / 2\<close> are divisions of \<^verbatim>\<open>int\<close> literals.\<close>
  "shiftNatGas h scn this period regionName carbonPrice =
     (let natGasPrice = getPrice scn (curveShiftFuelName this) regionName period True;
          natGasBasePrice = getPrice scn (curveShiftFuelName this) regionName 1 True;
          priceChangeRatio = (if natGasPrice \<noteq> 0 then natGasBasePrice / natGasPrice else 1);
          NORM_FACTOR = real_of_int (trunc_div 3 5)
      in bindE (deref h (macCurve this)) (\<lambda>c.
           let minCarbonPrice = getMinX c;
               maxCarbonPrice = getMaxX c;
               convergenceFactor =
                 real_of_int (trunc_div 1 2) +
                 real_of_int (trunc_div 1 2) *
                   ((maxCarbonPrice - carbonPrice) / (maxCarbonPrice - minCarbonPrice));
               newCarbonPrice =
                 carbonPrice +
                 (NORM_FACTOR * (1 - priceChangeRatio) * fuelShiftRange this * convergenceFactor);
               newCarbonPrice1 = max newCarbonPrice minCarbonPrice;
               newCarbonPrice2 = min newCarbonPrice1 maxCarbonPrice
           in Inr newCarbonPrice2))"

definition shiftCostReduction :: "scenario \<Rightarrow> GhgMAC \<Rightarrow> int \<Rightarrow> real \<Rightarrow> real" where
  \<comment> \<open>The parameter \<open>costReductionRate\<close> hides the member of the same name;
      \<open>baseCostYear\<close> is the member. \<^verbatim>\<open>pow\<close> is called with an \<^verbatim>\<open>int\<close> exponent.\<close>
  "shiftCostReduction scn this period costReductionRate' =
     (if costReductionRate' \<noteq> 0
      then (let numberYears = getper_to_yr scn period - baseCostYear this
            in if numberYears > 0
               then 1 / ((1 + costReductionRate') powi numberYears)
               else 1)
      else 1)"

definition getMACValue :: "heap \<Rightarrow> GhgMAC \<Rightarrow> real \<Rightarrow> error + (real \<times> log)" where
  "getMACValue h this carbonPrice =
     bindE (deref h (macCurve this)) (\<lambda>c.
       let maxCO2Tax = getMaxX c;
           effectiveCarbonPrice = min carbonPrice maxCO2Tax;
           reduction = getY c effectiveCarbonPrice
       in if reduction = - DBL_MAX
          then Inr (0, [(ERROR, '' An error occured when evaluating MAC curve for a GHG.'')])
          else Inr (reduction, []))"

definition findReduction ::
  "heap \<Rightarrow> scenario \<Rightarrow> GhgMAC \<Rightarrow> string \<Rightarrow> int \<Rightarrow> error + (real \<times> log)" where
  "findReduction h scn this regionName period =
     (let effectiveCarbonPrice0 = getPrice scn ''CO2'' regionName period False;
          effectiveCarbonPrice1 =
            (if effectiveCarbonPrice0 = NO_MARKET_PRICE scn then 0 else effectiveCarbonPrice0)
      in bindE (if fuelShiftRange this \<noteq> 0
                then shiftNatGas h scn this period regionName effectiveCarbonPrice1
                else Inr effectiveCarbonPrice1) (\<lambda>effectiveCarbonPrice2.
         let effectiveCarbonPrice3 =
               effectiveCarbonPrice2
                 * shiftCostReduction scn this period (costReductionRate this)
         in bindE (getMACValue h this effectiveCarbonPrice3) (\<lambda>(reduction0, log1).
            let reduction1 =
                  (if noBelowZero this \<and> effectiveCarbonPrice3 < 0 then 0 else reduction0)
            in bindE (deref h (macCurve this)) (\<lambda>c.
               let maxCO2Tax = getMaxX c
               in bindE (getMACValue h this maxCO2Tax) (\<lambda>(maxReduction, log2).
                  let reduction2 = reduction1 * adjustPhaseIn this period;
                      finalReductionPeriod = getper_to_yr scn (finalReductionYear this)
                  in if finalReduction this > maxReduction \<and> finalReductionPeriod > 1
                     then bindE (adjustTechCh this period finalReductionPeriod maxReduction)
                            (\<lambda>m. Inr (reduction2 * m, log1 @ log2))
                     else Inr (reduction2, log1 @ log2))))))"

section \<open>BuildingHeatCoolDmdTechnology\<close>

text \<open>
  The members the two embedded functions touch. \<open>shrwts\<close> is inherited from the
  technology base class. \<open>getInternalGainsSign\<close> and \<open>getDemandFnPrefix\<close> are virtual
  members defined outside the embedded files (in the heating and cooling subclasses and in
  \<^verbatim>\<open>BuildingGenericDmdTechnology\<close>); the object carries what they return.
  \<^verbatim>\<open>IInfo::getDouble\<close> takes the key and the \<^verbatim>\<open>mustExist\<close> flag.
\<close>

record IInfo =
  getDouble :: "string \<Rightarrow> bool \<Rightarrow> real"

record BuildingHeatCoolDmdTechnology =
  shrwts :: real
  aveInsulation :: real
  floorToSurfaceArea :: real
  fractionOfYearActive :: real
  intGainsMarketName :: string
  getInternalGainsSign :: real
  getDemandFnPrefix :: "string \<Rightarrow> int \<Rightarrow> real"

definition getEffectiveInternalGains ::
  "scenario \<Rightarrow> BuildingHeatCoolDmdTechnology \<Rightarrow> string \<Rightarrow> int \<Rightarrow> real" where
  "getEffectiveInternalGains scn this regionName period =
     getInternalGainsSign this * getPrice scn (intGainsMarketName this) regionName period True
       * fractionOfYearActive this"

definition adjustForCalibration ::
  "scenario \<Rightarrow> BuildingHeatCoolDmdTechnology \<Rightarrow> real \<Rightarrow> string \<Rightarrow> IInfo \<Rightarrow> int
     \<Rightarrow> BuildingHeatCoolDmdTechnology" where
  "adjustForCalibration scn this subSectorDemand regionName aSubsectorInfo period =
     (let unitDemand = subSectorDemand;
          floorSpace = getDouble aSubsectorInfo ''floorSpace'' True;
          effectiveDemand = unitDemand * floorSpace;
          effectiveDemand1 = effectiveDemand - getEffectiveInternalGains scn this regionName period;
          effectiveDemand2 = max effectiveDemand1 0
      in this\<lparr>shrwts := (effectiveDemand2 / floorSpace) / getDemandFnPrefix this regionName period\<rparr>)"

section \<open>The specification's formulas\<close>

text \<open>
  Two formulas as the specification words them, in exact real arithmetic, to be compared
  with the functions above: the fuel-shift adjustment with \<open>NORM_FACTOR = 0.6\<close> and
  \<open>convergenceFactor = 0.5 + 0.5 * (maxX - carbonPrice) / (maxX - minX)\<close>, and the
  tech-change cap multiplier \<open>change * (1 / (finalReductionPeriod - 2)) * (period - 2)\<close>.
\<close>

definition spec_shiftNatGas ::
  "heap \<Rightarrow> scenario \<Rightarrow> GhgMAC \<Rightarrow> int \<Rightarrow> string \<Rightarrow> real \<Rightarrow> error + real" where
  "spec_shiftNatGas h scn this period regionName carbonPrice =
     bindE (deref h (macCurve this)) (\<lambda>c.
       let currentPrice = getPrice scn (curveShiftFuelName this) regionName period True;
           basePrice = getPrice scn (curveShiftFuelName this) regionName 1 True;
           priceChangeRatio = (if currentPrice \<noteq> 0 then basePrice / currentPrice else 1);
           convergenceFactor =
             1 / 2 + 1 / 2 * ((getMaxX c - carbonPrice) / (getMaxX c - getMinX c));
           adjustedPrice =
             carbonPrice + 6 / 10 * (1 - priceChangeRatio) * fuelShiftRange this * convergenceFactor
       in Inr (min (max adjustedPrice (getMinX c)) (getMaxX c)))"

definition spec_capMultiplier :: "int \<Rightarrow> int \<Rightarrow> real \<Rightarrow> real \<Rightarrow> real" where
  "spec_capMultiplier period finalReductionPeriod maxReduction finalReduction' =
     (let change = maxReduction / finalReduction'
      in if period \<le> finalReductionPeriod
         then change * (1 / real_of_int (finalReductionPeriod - 2)) * real_of_int (period - 2)
         else change)"

section \<open>Example objects\<close>

text \<open>
  A three-point curve (the calibration points of the spec's scenarios), a second curve
  whose first point is away from the origin, a curve without points, a calendar with 15-year steps from 1975, and
  a marketplace with a CO2 market and a natural-gas market whose price doubles after
  period 1.
\<close>

definition example_curve :: curve where
  "example_curve = PointSetCurve [(0, 0), (100, 1 / 2), (200, 9 / 10)]"

definition offset_curve :: curve where
  "offset_curve = PointSetCurve [(10, 1 / 5), (100, 1 / 2), (200, 9 / 10)]"

definition example_heap :: heap where
  "example_heap = [Some example_curve, Some offset_curve, Some (PointSetCurve [])]"

definition example_scenario :: "real \<Rightarrow> scenario" where
  "example_scenario co2 =
     \<lparr> getPrice = (\<lambda>market region period mustExist.
                     if market = ''CO2'' then co2
                     else if market = ''regional natural gas''
                          then (if period \<le> 1 then 1 else 2)
                          else if market = ''internal gains'' then 30
                          else - 1),
       NO_MARKET_PRICE = - 1,
       getper_to_yr = (\<lambda>period. 1975 + 15 * period),
       getBasePeriod = 0,
       getEndYear = 2095 \<rparr>"

definition example_mac :: GhgMAC where
  "example_mac = (GhgMAC_default (example_scenario 0))\<lparr>macCurve := Some 0\<rparr>"

definition offset_mac :: GhgMAC where
  "offset_mac = example_mac\<lparr>macCurve := Some 1\<rparr>"

definition empty_mac :: GhgMAC where
  "empty_mac = example_mac\<lparr>macCurve := Some 2\<rparr>"

definition example_tech :: BuildingHeatCoolDmdTechnology where
  "example_tech =
     \<lparr> shrwts = 1, aveInsulation = 0, floorToSurfaceArea = 0, fractionOfYearActive = 1 / 2,
       intGainsMarketName = ''internal gains'', getInternalGainsSign = 1,
       getDemandFnPrefix = (\<lambda>region period. 4) \<rparr>"

definition example_info :: IInfo where
  "example_info = \<lparr> getDouble = (\<lambda>key mustExist. if key = ''floorSpace'' then 10 else 0) \<rparr>"

section \<open>Basic facts\<close>

lemma bindE_simps:
  "bindE (Inl e) f = Inl e" "bindE (Inr x) f = f x"
  by (simp_all add: bindE_def)

lemma DBL_MAX_gt: "1 < DBL_MAX"
  unfolding DBL_MAX_def by simp

lemma trunc_div_3_5: "trunc_div 3 5 = 0"
  by (simp add: trunc_div_def)

lemma trunc_div_1_2: "trunc_div 1 2 = 0"
  by (simp add: trunc_div_def)

lemma trunc_div_1_large: "2 \<le> n \<Longrightarrow> trunc_div 1 n = 0"
  by (simp add: trunc_div_def)

lemma powi_pos_nat: "0 < n \<Longrightarrow> (x::real) powi n = x ^ nat n"
  by (simp add: power_int_def)

lemma inverse_power_strict_decreasing:
  fixes b :: real
  assumes "1 < b" and "m < n"
  shows "1 / b ^ n < 1 / b ^ m"
proof -
  have "b ^ m < b ^ n" using assms by (simp add: power_strict_increasing)
  moreover have "0 < b ^ m" using assms by simp
  ultimately show ?thesis by (simp add: frac_less2)
qed

lemma inverse_power_lt_one:
  fixes b :: real
  assumes "1 < b" and "0 < n"
  shows "1 / b ^ n < 1"
  using inverse_power_strict_decreasing [OF assms(1), of 0 n] assms(2) by simp

subsection \<open>The example objects\<close>

lemma example_curve_simps:
  "getMinX example_curve = 0" "getMaxX example_curve = 200"
  "getSortedPairs example_curve = [(0, 0), (100, 1 / 2), (200, 9 / 10)]"
  "getY example_curve = interpolate [(0, 0), (100, 1 / 2), (200, 9 / 10)]"
  by (simp_all add: example_curve_def PointSetCurve_def Let_def)

lemma offset_curve_simps:
  "getMinX offset_curve = 10" "getMaxX offset_curve = 200"
  "getY offset_curve = interpolate [(10, 1 / 5), (100, 1 / 2), (200, 9 / 10)]"
  by (simp_all add: offset_curve_def PointSetCurve_def Let_def)

lemma example_mac_simps:
  "macCurve example_mac = Some 0" "phaseIn example_mac = 1" "fuelShiftRange example_mac = 0"
  "costReductionRate example_mac = 0" "baseCostYear example_mac = 1975"
  "finalReduction example_mac = 0" "finalReductionYear example_mac = 2095"
  "noBelowZero example_mac = False" "curveShiftFuelName example_mac = []"
  by (simp_all add: example_mac_def GhgMAC_default_def example_scenario_def)

lemma example_scenario_simps:
  "getPrice (example_scenario co2) ''CO2'' r p b = co2"
  "getPrice (example_scenario co2) ''regional natural gas'' r p b = (if p \<le> 1 then 1 else 2)"
  "getPrice (example_scenario co2) ''internal gains'' r p b = 30"
  "NO_MARKET_PRICE (example_scenario co2) = - 1"
  "getper_to_yr (example_scenario co2) p = 1975 + 15 * p"
  by (simp_all add: example_scenario_def)

lemma deref_example_heap:
  "deref example_heap (Some 0) = Inr example_curve"
  "deref example_heap (macCurve offset_mac) = Inr offset_curve"
  "deref example_heap (macCurve empty_mac) = Inr (PointSetCurve [])"
  by (simp_all add: deref_def example_heap_def offset_mac_def empty_mac_def)

text \<open>
  The example object is what parsing the three calibration points into a default-constructed
  object gives.
\<close>

lemma XMLParse_example:
  "XMLParse [] (GhgMAC_default (example_scenario 0))
     [\<lparr>nodeName = ''#text'', doubleValue = 0, intValue = 0, stringValue = [],
        boolValue = False, taxAttr = 0\<rparr>,
      \<lparr>nodeName = ''reduction'', doubleValue = 0, intValue = 0, stringValue = [],
        boolValue = False, taxAttr = 0\<rparr>,
      \<lparr>nodeName = ''reduction'', doubleValue = 1 / 2, intValue = 0, stringValue = [],
        boolValue = False, taxAttr = 100\<rparr>,
      \<lparr>nodeName = ''reduction'', doubleValue = 9 / 10, intValue = 0, stringValue = [],
        boolValue = False, taxAttr = 200\<rparr>]
   = ([Some example_curve], example_mac, [])"
  by (simp add: XMLParse_def parseChild_def alloc_def reset_def example_mac_def
        GhgMAC_default_def example_curve_def)

subsection \<open>The heap\<close>

lemma deref_Inr_iff:
  "deref h p = Inr c \<longleftrightarrow> (\<exists>a. p = Some a \<and> a < length h \<and> h ! a = Some c)"
  by (auto simp: deref_def split: option.splits)

lemma deref_append_old:
  "deref h p = Inr c \<Longrightarrow> deref (h @ [x]) p = Inr c"
  by (auto simp: deref_def nth_append split: option.splits if_splits)

lemma deref_append_new:
  "deref (h @ [Some c]) (Some (length h)) = Inr c"
  by (simp add: deref_def)

text \<open>
  Parsing always leaves the object with a live curve: every later member function
  dereferences \<open>macCurve\<close> without a check and relies on this.
\<close>

lemma XMLParse_owns_curve:
  "\<exists>h' that mainLog pts.
     XMLParse h this nodeList = (h', that, mainLog)
     \<and> deref h' (macCurve that) = Inr (PointSetCurve pts)"
proof -
  obtain this1 currPoints mainLog
    where f: "foldl parseChild (this, [], []) nodeList = (this1, currPoints, mainLog)"
    by (cases "foldl parseChild (this, [], []) nodeList") auto
  have "deref (fst (reset (h @ [Some (PointSetCurve currPoints)]) this1 (length h)))
          (macCurve (snd (reset (h @ [Some (PointSetCurve currPoints)]) this1 (length h))))
        = Inr (PointSetCurve currPoints)"
    by (auto simp: reset_def free_def deref_def nth_append split: option.splits)
  then show ?thesis
    by (auto simp: XMLParse_def f alloc_def split: prod.splits)
qed

subsection \<open>The member functions on a live curve\<close>

lemma getMACValue_deref:
  assumes "deref h (macCurve this) = Inr c"
  shows "getMACValue h this carbonPrice =
           (if getY c (min carbonPrice (getMaxX c)) = - DBL_MAX
            then Inr (0, [(ERROR, '' An error occured when evaluating MAC curve for a GHG.'')])
            else Inr (getY c (min carbonPrice (getMaxX c)), []))"
  using assms by (simp add: getMACValue_def bindE_simps Let_def)

text \<open>
  Both quotients of \<^verbatim>\<open>int\<close> literals in \<open>shiftNatGas\<close> are 0, so the shift term
  vanishes and the function returns the carbon price it was given, clamped to the curve's
  domain (a domain of one point would divide by \<open>maxCarbonPrice - minCarbonPrice = 0\<close>).
\<close>

lemma shiftNatGas_deref:
  assumes "deref h (macCurve this) = Inr c" and "getMinX c \<noteq> getMaxX c"
  shows "shiftNatGas h scn this period regionName carbonPrice
           = Inr (min (max carbonPrice (getMinX c)) (getMaxX c))"
  using assms
  by (simp add: shiftNatGas_def bindE_simps Let_def trunc_div_3_5 trunc_div_1_2)

text \<open>
  The integer quotient \<open>1 / (finalReductionPeriod - 2)\<close> in \<open>adjustTechCh\<close>: it is 1 at
  \<open>finalReductionPeriod = 3\<close>, 0 from 4 on, and a division by zero at 2, which is
  reached only while \<open>period \<le> finalReductionPeriod\<close>.
\<close>

lemma adjustTechCh_three:
  assumes "period \<le> 3"
  shows "adjustTechCh this period 3 maxReduction
           = Inr (maxReduction / finalReduction this * real_of_int (period - 2))"
  using assms
  by (simp add: adjustTechCh_def int_div_def bindE_simps Let_def trunc_div_def)

lemma adjustTechCh_zero:
  assumes "period \<le> finalReductionPeriod" and "4 \<le> finalReductionPeriod"
    and "finalReduction this \<noteq> 0"
  shows "adjustTechCh this period finalReductionPeriod maxReduction = Inr 0"
  using assms
  by (simp add: adjustTechCh_def int_div_def bindE_simps Let_def trunc_div_1_large)

lemma adjustTechCh_DivideByZero:
  "adjustTechCh this period finalReductionPeriod maxReduction = Inl DivideByZero
     \<longleftrightarrow> period \<le> finalReductionPeriod \<and> finalReductionPeriod = 2"
  by (auto simp: adjustTechCh_def int_div_def bindE_simps Let_def)

lemma adjustTechCh_after:
  "finalReductionPeriod < period \<Longrightarrow>
     adjustTechCh this period finalReductionPeriod maxReduction
       = Inr (maxReduction / finalReduction this)"
  by (simp add: adjustTechCh_def Let_def)

lemma getMACValue_example_150:
  "macCurve m = Some 0 \<Longrightarrow> getMACValue example_heap m 150 = Inr (7 / 10, [])"
  using DBL_MAX_gt
  by (simp add: getMACValue_def deref_example_heap bindE_simps Let_def example_curve_simps)

lemma getMACValue_example_200:
  "macCurve m = Some 0 \<Longrightarrow> getMACValue example_heap m 200 = Inr (9 / 10, [])"
  using DBL_MAX_gt
  by (simp add: getMACValue_def deref_example_heap bindE_simps Let_def example_curve_simps)

subsection \<open>Dependence on the curve pointer\<close>

lemma getMACValue_cong:
  "deref h2 (macCurve that) = deref h1 (macCurve this) \<Longrightarrow>
     getMACValue h2 that price = getMACValue h1 this price"
  by (simp add: getMACValue_def)

lemma shiftNatGas_cong:
  "deref h2 p = deref h1 (macCurve this) \<Longrightarrow>
     shiftNatGas h2 scn (this\<lparr>macCurve := p\<rparr>) period regionName price
       = shiftNatGas h1 scn this period regionName price"
  by (simp add: shiftNatGas_def)

lemma macCurve_update_simps:
  "adjustPhaseIn (this\<lparr>macCurve := p\<rparr>) period = adjustPhaseIn this period"
  "adjustTechCh (this\<lparr>macCurve := p\<rparr>) period frp maxReduction
     = adjustTechCh this period frp maxReduction"
  "shiftCostReduction scn (this\<lparr>macCurve := p\<rparr>) period rate
     = shiftCostReduction scn this period rate"
  by (simp_all add: adjustPhaseIn_def adjustTechCh_def shiftCostReduction_def)

lemma findReduction_cong:
  assumes "deref h2 p = deref h1 (macCurve this)"
  shows "findReduction h2 scn (this\<lparr>macCurve := p\<rparr>) regionName period
           = findReduction h1 scn this regionName period"
proof -
  have g: "\<And>x. getMACValue h2 (this\<lparr>macCurve := p\<rparr>) x = getMACValue h1 this x"
    by (rule getMACValue_cong) (simp add: assms)
  show ?thesis
    unfolding findReduction_def
    by (simp add: g shiftNatGas_cong [OF assms] macCurve_update_simps assms Let_def
          cong: if_cong)
qed

lemma clone_deref:
  assumes "deref h (macCurve this) = Inr c"
  shows "clone h this = Inr (h @ [Some c], this\<lparr>macCurve := Some (length h)\<rparr>)"
  using assms
  by (simp add: clone_def GhgMAC_copy_ctor_def copy_def reset_def alloc_def curve_clone_def
        bindE_simps)

lemma clone_null:
  "macCurve this = None \<Longrightarrow> clone h this = Inl NullPointer"
  by (simp add: clone_def GhgMAC_copy_ctor_def copy_def deref_def bindE_simps)

section \<open>The fuel-shift adjustment\<close>

text \<open>
  C1: for every carbon price \<open>p\<close> and period, when \<open>fuelShiftRange\<close> is nonzero,
  \<open>shiftNatGas\<close> should return
  \<open>p + 0.6 * (1 - priceChangeRatio) * fuelShiftRange * convergenceFactor\<close> clamped to
  \<open>[minX, maxX]\<close>, with \<open>convergenceFactor = 0.5 + 0.5 * (maxX - p) / (maxX - minX)\<close>.
  The source writes the two constants as \<^verbatim>\<open>3 / 5\<close> and \<^verbatim>\<open>1 / 2\<close>, which are integer
  quotients and both 0. On the three-point curve, with a fuel price that doubled since
  period 1, \<open>fuelShiftRange = 10\<close> and \<open>p = 50\<close>, the function returns 50, where the
  formula gives \<open>50 + 0.6 * 0.5 * 10 * 0.875 = 52.625\<close>.
\<close>

theorem shiftNatGas_drops_fuel_shift:
  "fuelShiftRange (example_mac\<lparr>fuelShiftRange := 10,
                               curveShiftFuelName := ''regional natural gas''\<rparr>) \<noteq> 0
   \<and> shiftNatGas example_heap (example_scenario 50)
         (example_mac\<lparr>fuelShiftRange := 10, curveShiftFuelName := ''regional natural gas''\<rparr>)
         3 ''USA'' 50 = Inr 50
   \<and> spec_shiftNatGas example_heap (example_scenario 50)
         (example_mac\<lparr>fuelShiftRange := 10, curveShiftFuelName := ''regional natural gas''\<rparr>)
         3 ''USA'' 50 = Inr (421 / 8)"
proof -
  let ?m = "example_mac\<lparr>fuelShiftRange := 10, curveShiftFuelName := ''regional natural gas''\<rparr>"
  have d: "deref example_heap (macCurve ?m) = Inr example_curve"
    by (simp add: example_mac_simps deref_example_heap)
  have ne: "getMinX example_curve \<noteq> getMaxX example_curve"
    by (simp add: example_curve_simps)
  have code: "shiftNatGas example_heap (example_scenario 50) ?m 3 ''USA'' 50 = Inr 50"
    by (simp add: shiftNatGas_deref [OF d ne] example_curve_simps)
  have spec: "spec_shiftNatGas example_heap (example_scenario 50) ?m 3 ''USA'' 50 = Inr (421 / 8)"
    using d
    by (simp add: spec_shiftNatGas_def bindE_simps Let_def example_curve_simps
          example_scenario_simps)
  show ?thesis using code spec by simp
qed

section \<open>The tech-change cap multiplier\<close>

text \<open>
  C2: for \<open>period \<le> finalReductionPeriod\<close> and a nonzero \<open>finalReduction\<close>,
  \<open>adjustTechCh\<close> should be the linear ramp
  \<open>(maxReduction / finalReduction) * (1 / (finalReductionPeriod - 2)) * (period - 2)\<close> of real
  arithmetic, and \<open>maxReduction / finalReduction\<close> afterwards. The source divides two
  \<^verbatim>\<open>int\<close>s: at \<open>period = 3\<close>, \<open>finalReductionPeriod = 4\<close>, \<open>maxReduction = 0.5\<close> and
  \<open>finalReduction = 1\<close> the function returns 0, where the ramp is at 0.25.
\<close>

theorem adjustTechCh_integer_quotient:
  "finalReduction (example_mac\<lparr>finalReduction := 1\<rparr>) \<noteq> 0
   \<and> adjustTechCh (example_mac\<lparr>finalReduction := 1\<rparr>) 3 4 (1 / 2) = Inr 0
   \<and> spec_capMultiplier 3 4 (1 / 2) (finalReduction (example_mac\<lparr>finalReduction := 1\<rparr>)) = 1 / 4"
  by (simp add: adjustTechCh_def int_div_def bindE_simps Let_def trunc_div_def
        spec_capMultiplier_def)

section \<open>The phase-in multiplier\<close>

text \<open>
  C3: \<open>adjustPhaseIn\<close> depends on the object only through \<open>phaseIn\<close>. It is 0 at period 1
  when \<open>phaseIn \<ge> 1\<close>; it equals \<open>(period - 1) / phaseIn\<close> while \<open>period - 1 < phaseIn\<close>
  and \<open>phaseIn \<ge> 1\<close>; it is exactly 1 once \<open>period - 1 \<ge> phaseIn\<close> and whenever
  \<open>phaseIn < 1\<close>; from period 1 on it does not decrease with the period and stays
  between 0 and 1.
\<close>

theorem adjustPhaseIn_ramp:
  "(phaseIn this \<ge> 1 \<longrightarrow> adjustPhaseIn this 1 = 0)
   \<and> (real_of_int (period - 1) < phaseIn this \<and> phaseIn this \<ge> 1
        \<longrightarrow> adjustPhaseIn this period = real_of_int (period - 1) / phaseIn this)
   \<and> (phaseIn this \<le> real_of_int (period - 1) \<or> phaseIn this < 1
        \<longrightarrow> adjustPhaseIn this period = 1)
   \<and> (1 \<le> p1 \<and> p1 \<le> p2 \<longrightarrow> adjustPhaseIn this p1 \<le> adjustPhaseIn this p2)
   \<and> (1 \<le> period \<longrightarrow> 0 \<le> adjustPhaseIn this period \<and> adjustPhaseIn this period \<le> 1)
   \<and> (phaseIn that = phaseIn this \<longrightarrow> adjustPhaseIn that period = adjustPhaseIn this period)"
  by (auto simp: adjustPhaseIn_def divide_simps)

theorem adjustPhaseIn_ramp_witness:
  "phaseIn (example_mac\<lparr>phaseIn := 3\<rparr>) \<ge> 1
   \<and> adjustPhaseIn (example_mac\<lparr>phaseIn := 3\<rparr>) 1 = 0
   \<and> real_of_int (2 - 1) < phaseIn (example_mac\<lparr>phaseIn := 3\<rparr>)
   \<and> adjustPhaseIn (example_mac\<lparr>phaseIn := 3\<rparr>) 2 = 1 / 3
   \<and> phaseIn (example_mac\<lparr>phaseIn := 3\<rparr>) \<le> real_of_int (4 - 1)
   \<and> adjustPhaseIn (example_mac\<lparr>phaseIn := 3\<rparr>) 4 = 1
   \<and> (1::int) \<le> 2 \<and> (2::int) \<le> 4
   \<and> adjustPhaseIn (example_mac\<lparr>phaseIn := 3\<rparr>) 2
       \<le> adjustPhaseIn (example_mac\<lparr>phaseIn := 3\<rparr>) 4
   \<and> phaseIn (example_mac\<lparr>phaseIn := 1 / 2\<rparr>) < 1
   \<and> adjustPhaseIn (example_mac\<lparr>phaseIn := 1 / 2\<rparr>) 1 = 1
   \<and> phaseIn (example_mac\<lparr>phaseIn := 3, noBelowZero := True\<rparr>)
       = phaseIn (example_mac\<lparr>phaseIn := 3\<rparr>)
   \<and> adjustPhaseIn (example_mac\<lparr>phaseIn := 3, noBelowZero := True\<rparr>) 2 = 1 / 3"
  using adjustPhaseIn_ramp [of "example_mac\<lparr>phaseIn := 3\<rparr>" 2 2 4
                               "example_mac\<lparr>phaseIn := 3, noBelowZero := True\<rparr>"]
        adjustPhaseIn_ramp [of "example_mac\<lparr>phaseIn := 3\<rparr>" 4 2 4
                               "example_mac\<lparr>phaseIn := 3\<rparr>"]
        adjustPhaseIn_ramp [of "example_mac\<lparr>phaseIn := 1 / 2\<rparr>" 1 1 1
                               "example_mac\<lparr>phaseIn := 1 / 2\<rparr>"]
  by simp

section \<open>The cost-reduction decay factor\<close>

text \<open>
  C4: \<open>shiftCostReduction\<close> is 1 in every period when the rate is 0. For a positive rate
  \<open>r\<close> and \<open>years = getper_to_yr period - baseCostYear\<close> it is \<open>1 / (1 + r) ^ years\<close>
  when \<open>years > 0\<close> and 1 otherwise, and it is strictly decreasing in the elapsed years:
  a period with more elapsed years, and a positive number of them, has a strictly smaller
  factor. (Between two periods that both lie at or before \<open>baseCostYear\<close> the factor is
  the constant 1 of the "else 1" case.)
\<close>

theorem shiftCostReduction_decay:
  "shiftCostReduction scn this period 0 = 1
   \<and> (0 < r \<and> 0 < getper_to_yr scn period - baseCostYear this
        \<longrightarrow> shiftCostReduction scn this period r
            = 1 / (1 + r) ^ nat (getper_to_yr scn period - baseCostYear this))
   \<and> (0 < r \<and> getper_to_yr scn period - baseCostYear this \<le> 0
        \<longrightarrow> shiftCostReduction scn this period r = 1)
   \<and> (0 < r \<and> 0 < getper_to_yr scn p2 - baseCostYear this
        \<and> getper_to_yr scn p1 - baseCostYear this < getper_to_yr scn p2 - baseCostYear this
        \<longrightarrow> shiftCostReduction scn this p2 r < shiftCostReduction scn this p1 r)"
proof (intro conjI impI)
  show "shiftCostReduction scn this period 0 = 1"
    by (simp add: shiftCostReduction_def)
next
  assume "0 < r \<and> 0 < getper_to_yr scn period - baseCostYear this"
  then show "shiftCostReduction scn this period r
               = 1 / (1 + r) ^ nat (getper_to_yr scn period - baseCostYear this)"
    by (simp add: shiftCostReduction_def Let_def powi_pos_nat)
next
  assume "0 < r \<and> getper_to_yr scn period - baseCostYear this \<le> 0"
  then show "shiftCostReduction scn this period r = 1"
    by (simp add: shiftCostReduction_def Let_def)
next
  assume a: "0 < r \<and> 0 < getper_to_yr scn p2 - baseCostYear this
        \<and> getper_to_yr scn p1 - baseCostYear this < getper_to_yr scn p2 - baseCostYear this"
  define y1 where "y1 = getper_to_yr scn p1 - baseCostYear this"
  define y2 where "y2 = getper_to_yr scn p2 - baseCostYear this"
  have r: "0 < r" and y2: "0 < y2" and lt: "y1 < y2"
    using a by (simp_all add: y1_def y2_def)
  have b: "1 < 1 + r" using r by simp
  have f2: "shiftCostReduction scn this p2 r = 1 / (1 + r) ^ nat y2"
    using r y2 by (simp add: shiftCostReduction_def Let_def powi_pos_nat y2_def)
  show "shiftCostReduction scn this p2 r < shiftCostReduction scn this p1 r"
  proof (cases "0 < y1")
    case True
    then have f1: "shiftCostReduction scn this p1 r = 1 / (1 + r) ^ nat y1"
      using r by (simp add: shiftCostReduction_def Let_def powi_pos_nat y1_def)
    have "nat y1 < nat y2" using True lt by simp
    then show ?thesis
      unfolding f1 f2 by (rule inverse_power_strict_decreasing [OF b])
  next
    case False
    then have f1: "shiftCostReduction scn this p1 r = 1"
      using r by (simp add: shiftCostReduction_def Let_def y1_def)
    have "0 < nat y2" using y2 by simp
    then show ?thesis
      unfolding f1 f2 by (rule inverse_power_lt_one [OF b])
  qed
qed

theorem shiftCostReduction_decay_witness:
  "shiftCostReduction (example_scenario 0) example_mac 1 0 = 1
   \<and> (0::real) < 1
   \<and> 0 < getper_to_yr (example_scenario 0) 1 - baseCostYear example_mac
   \<and> shiftCostReduction (example_scenario 0) example_mac 1 1 = 1 / 2 ^ 15
   \<and> getper_to_yr (example_scenario 0) 0 - baseCostYear example_mac \<le> 0
   \<and> shiftCostReduction (example_scenario 0) example_mac 0 1 = 1
   \<and> getper_to_yr (example_scenario 0) 0 - baseCostYear example_mac
       < getper_to_yr (example_scenario 0) 1 - baseCostYear example_mac
   \<and> shiftCostReduction (example_scenario 0) example_mac 1 1
       < shiftCostReduction (example_scenario 0) example_mac 0 1"
  using shiftCostReduction_decay [of "example_scenario 0" example_mac 1 1 1 0]
        shiftCostReduction_decay [of "example_scenario 0" example_mac 0 1 1 0]
  by (simp add: example_mac_simps example_scenario_simps)

section \<open>The curve lookup\<close>

text \<open>
  C5: for every object with a live curve and every price at or above the curve's maximum
  x, \<open>getMACValue\<close> returns what it returns at the maximum x: it never extrapolates above
  the upper bound of the curve's domain.
\<close>

theorem getMACValue_upper_clamp:
  assumes "deref h (macCurve this) = Inr c" and "getMaxX c \<le> price"
  shows "getMACValue h this price = getMACValue h this (getMaxX c)"
  using assms by (simp add: getMACValue_deref min_def)

theorem getMACValue_upper_clamp_witness:
  "deref example_heap (macCurve example_mac) = Inr example_curve
   \<and> getMaxX example_curve \<le> 250
   \<and> getMACValue example_heap example_mac 250 = getMACValue example_heap example_mac 200
   \<and> getMACValue example_heap example_mac 200 = Inr (9 / 10, [])"
proof -
  have d: "deref example_heap (macCurve example_mac) = Inr example_curve"
    by (simp add: example_mac_simps deref_example_heap)
  have m: "getMaxX example_curve \<le> 250"
    by (simp add: example_curve_simps)
  have v: "getMACValue example_heap example_mac 200 = Inr (9 / 10, [])"
    using DBL_MAX_gt by (simp add: getMACValue_deref [OF d] example_curve_simps)
  show ?thesis
    using getMACValue_upper_clamp [OF d m] d m v by (simp add: example_curve_simps)
qed

text \<open>
  C6: every price-based curve lookup should clamp the queried price to the curve's domain
  \<open>[getMinX, getMaxX]\<close> before evaluating the curve, so that \<open>getMACValue\<close> below the
  minimum x returns what it returns at the minimum x. \<open>getMACValue\<close> clamps from above
  only. On the curve through (10, 0.2), (100, 0.5) and (200, 0.9) the price 0 lies below
  the minimum x; the curve is queried at 0 and the result differs from the one at 10.
\<close>

theorem getMACValue_no_lower_clamp:
  "deref example_heap (macCurve offset_mac) = Inr offset_curve
   \<and> 0 < getMinX offset_curve
   \<and> getMACValue example_heap offset_mac 0
       \<noteq> getMACValue example_heap offset_mac (getMinX offset_curve)"
proof -
  have d: "deref example_heap (macCurve offset_mac) = Inr offset_curve"
    by (rule deref_example_heap)
  have lo: "getMACValue example_heap offset_mac 0 = Inr (1 / 6, [])"
    using DBL_MAX_gt by (simp add: getMACValue_deref [OF d] offset_curve_simps)
  have mn: "getMACValue example_heap offset_mac 10 = Inr (1 / 5, [])"
    using DBL_MAX_gt by (simp add: getMACValue_deref [OF d] offset_curve_simps)
  show ?thesis
    using d lo mn by (simp add: offset_curve_simps)
qed

text \<open>
  C6 as amended: every curve lookup clamps the queried price from above only.
  \<open>getMACValue\<close> at a price is \<open>getMACValue\<close> at the smaller of the price and
  \<open>getMaxX\<close>; a price at or below \<open>getMaxX\<close>, also one below \<open>getMinX\<close>, is handed
  to the curve as it is. The fuel-shift adjustment clamps its own result: on a curve with
  \<open>getMinX < getMaxX\<close> it lies in \<open>[getMinX, getMaxX]\<close>.
\<close>

theorem price_lookup_upper_clamp_only:
  assumes "deref h (macCurve this) = Inr c"
  shows "getMACValue h this price = getMACValue h this (min price (getMaxX c))
         \<and> (price \<le> getMaxX c \<longrightarrow>
              getMACValue h this price
                = (if getY c price = - DBL_MAX
                   then Inr (0, [(ERROR, '' An error occured when evaluating MAC curve for a GHG.'')])
                   else Inr (getY c price, [])))
         \<and> (getMinX c < getMaxX c \<longrightarrow>
              (\<exists>newCarbonPrice.
                 shiftNatGas h scn this period regionName price = Inr newCarbonPrice
                 \<and> getMinX c \<le> newCarbonPrice \<and> newCarbonPrice \<le> getMaxX c))"
  using assms by (simp add: getMACValue_deref shiftNatGas_deref min_def)

theorem price_lookup_upper_clamp_only_witness:
  "deref example_heap (macCurve offset_mac) = Inr offset_curve
   \<and> getMACValue example_heap offset_mac 250 = getMACValue example_heap offset_mac 200
   \<and> 0 \<le> getMaxX offset_curve
   \<and> getMACValue example_heap offset_mac 0 = Inr (1 / 6, [])
   \<and> getMinX offset_curve < getMaxX offset_curve
   \<and> (\<exists>newCarbonPrice.
         shiftNatGas example_heap (example_scenario 0) offset_mac 2 ''USA'' 0 = Inr newCarbonPrice
         \<and> getMinX offset_curve \<le> newCarbonPrice \<and> newCarbonPrice \<le> getMaxX offset_curve)"
proof -
  have d: "deref example_heap (macCurve offset_mac) = Inr offset_curve"
    by (rule deref_example_heap)
  have y: "getY offset_curve 0 = 1 / 6"
    by (simp add: offset_curve_simps)
  have n: "getY offset_curve 0 \<noteq> - DBL_MAX"
    using DBL_MAX_gt by (simp add: y)
  show ?thesis
    using price_lookup_upper_clamp_only [OF d, of 250 "example_scenario 0" 2 "''USA''"]
          price_lookup_upper_clamp_only [OF d, of 0 "example_scenario 0" 2 "''USA''"] d y n
    by (auto simp: offset_curve_simps)
qed

text \<open>
  C8: on an object with a live curve, whenever the curve's \<open>getY\<close> answers the failure
  sentinel \<open>- DBL_MAX\<close> at the clamped price, \<open>getMACValue\<close> logs one entry of level
  \<open>ERROR\<close> and returns 0 as an ordinary result; for every other input it logs nothing and
  returns the curve's y at the clamped price.
\<close>

theorem getMACValue_sentinel:
  assumes "deref h (macCurve this) = Inr c"
  shows "(getY c (min price (getMaxX c)) = - DBL_MAX
            \<longrightarrow> (\<exists>msg. getMACValue h this price = Inr (0, [(ERROR, msg)])))
         \<and> (getY c (min price (getMaxX c)) \<noteq> - DBL_MAX
            \<longrightarrow> getMACValue h this price = Inr (getY c (min price (getMaxX c)), []))"
  using assms by (simp add: getMACValue_deref)

theorem getMACValue_sentinel_witness:
  "deref example_heap (macCurve empty_mac) = Inr (PointSetCurve [])
   \<and> getY (PointSetCurve []) (min 50 (getMaxX (PointSetCurve []))) = - DBL_MAX
   \<and> (\<exists>msg. getMACValue example_heap empty_mac 50 = Inr (0, [(ERROR, msg)]))
   \<and> deref example_heap (macCurve example_mac) = Inr example_curve
   \<and> getY example_curve (min 150 (getMaxX example_curve)) \<noteq> - DBL_MAX
   \<and> getMACValue example_heap example_mac 150 = Inr (7 / 10, [])"
proof -
  have d0: "deref example_heap (macCurve empty_mac) = Inr (PointSetCurve [])"
    by (rule deref_example_heap)
  have s0: "getY (PointSetCurve []) (min 50 (getMaxX (PointSetCurve []))) = - DBL_MAX"
    by (simp add: PointSetCurve_def)
  have d1: "deref example_heap (macCurve example_mac) = Inr example_curve"
    by (simp add: example_mac_simps deref_example_heap)
  have s1: "getY example_curve (min 150 (getMaxX example_curve)) = 7 / 10"
    by (simp add: example_curve_simps)
  have n1: "getY example_curve (min 150 (getMaxX example_curve)) \<noteq> - DBL_MAX"
    using DBL_MAX_gt by (simp add: s1)
  show ?thesis
    using getMACValue_sentinel [OF d0, of 50] getMACValue_sentinel [OF d1, of 150] d0 s0 d1 n1 s1
    by simp
qed

section \<open>The reduction pipeline\<close>

text \<open>
  C7: in \<open>findReduction\<close> the tech-change cap multiplier should be applied if and only if
  \<open>finalReduction\<close> exceeds the curve's reduction at its maximum x and the period index
  of the calendar year \<open>finalReductionYear\<close> is greater than 1. The source obtains
  \<open>finalReductionPeriod\<close> by handing the year to \<open>getper_to_yr\<close>, the map from a period
  index to its year (as \<open>shiftCostReduction\<close> and the constructor use it). In the calendar
  with period 1 at 1990, \<open>finalReductionYear = 1990\<close> has period index 1, so the cap
  should stay off; the source compares \<open>getper_to_yr 1990 = 31825\<close> with 1, applies the
  cap, and the reduction 0.7 becomes 0.
\<close>

theorem findReduction_year_as_period:
  "getper_to_yr (example_scenario 150) 1 = 1990
   \<and> findReduction example_heap (example_scenario 150)
        (example_mac\<lparr>finalReduction := 1, finalReductionYear := 1990\<rparr>) ''USA'' 3 = Inr (0, [])
   \<and> findReduction example_heap (example_scenario 150)
        (example_mac\<lparr>finalReduction := 0, finalReductionYear := 1990\<rparr>) ''USA'' 3
       = Inr (7 / 10, [])"
proof -
  let ?scn = "example_scenario 150"
  let ?m = "example_mac\<lparr>finalReduction := 1, finalReductionYear := 1990\<rparr>"
  let ?u = "example_mac\<lparr>finalReduction := 0, finalReductionYear := 1990\<rparr>"
  have yr: "getper_to_yr ?scn 1 = 1990"
    by (simp add: example_scenario_simps)
  have cap: "adjustTechCh ?m 3 (1975 + 15 * 1990) (9 / 10) = Inr 0"
    by (rule adjustTechCh_zero) simp_all
  have capped: "findReduction example_heap ?scn ?m ''USA'' 3 = Inr (0, [])"
    using cap
    by (simp add: findReduction_def Let_def bindE_simps example_scenario_simps example_mac_simps
          shiftCostReduction_def adjustPhaseIn_def getMACValue_example_150
          getMACValue_example_200 deref_example_heap example_curve_simps)
  have uncapped: "findReduction example_heap ?scn ?u ''USA'' 3 = Inr (7 / 10, [])"
    by (simp add: findReduction_def Let_def bindE_simps example_scenario_simps example_mac_simps
          shiftCostReduction_def adjustPhaseIn_def getMACValue_example_150
          getMACValue_example_200 deref_example_heap example_curve_simps)
  show ?thesis using yr capped uncapped by simp
qed

section \<open>The demand calibration\<close>

text \<open>
  C9: for every subsector demand, region and period, \<open>adjustForCalibration\<close> sets the
  stored weight to
  \<open>(max (unitDemand * floorSpace - effectiveInternalGains) 0 / floorSpace) / demandFunctionPrefix\<close>
  with \<open>effectiveInternalGains = sign * price intGainsMarketName regionName period *
  fractionOfYearActive\<close>, and leaves every other member as it was. The effective demand is
  floored at 0 before the divisions: when the internal gains cover the demand (and the
  floor space and the prefix are not 0), the weight is 0.
\<close>

theorem adjustForCalibration_weight:
  "shrwts (adjustForCalibration scn this subSectorDemand regionName aSubsectorInfo period)
     = (max (subSectorDemand * getDouble aSubsectorInfo ''floorSpace'' True
             - getInternalGainsSign this
               * getPrice scn (intGainsMarketName this) regionName period True
               * fractionOfYearActive this) 0
        / getDouble aSubsectorInfo ''floorSpace'' True)
       / getDemandFnPrefix this regionName period
   \<and> (subSectorDemand * getDouble aSubsectorInfo ''floorSpace'' True
        \<le> getEffectiveInternalGains scn this regionName period
      \<and> getDouble aSubsectorInfo ''floorSpace'' True \<noteq> 0
      \<and> getDemandFnPrefix this regionName period \<noteq> 0
      \<longrightarrow> shrwts (adjustForCalibration scn this subSectorDemand regionName aSubsectorInfo period)
          = 0)
   \<and> adjustForCalibration scn this subSectorDemand regionName aSubsectorInfo period
       = this\<lparr>shrwts :=
               shrwts (adjustForCalibration scn this subSectorDemand regionName aSubsectorInfo
                         period)\<rparr>"
  by (simp add: adjustForCalibration_def getEffectiveInternalGains_def Let_def max_def)

theorem adjustForCalibration_weight_witness:
  "shrwts (adjustForCalibration (example_scenario 0) example_tech 2 ''USA'' example_info 1) = 1 / 8
   \<and> 1 * getDouble example_info ''floorSpace'' True
        \<le> getEffectiveInternalGains (example_scenario 0) example_tech ''USA'' 1
   \<and> getDouble example_info ''floorSpace'' True \<noteq> 0
   \<and> getDemandFnPrefix example_tech ''USA'' 1 \<noteq> 0
   \<and> shrwts (adjustForCalibration (example_scenario 0) example_tech 1 ''USA'' example_info 1) = 0"
  using adjustForCalibration_weight [of "example_scenario 0" example_tech 2 "''USA''" example_info 1]
        adjustForCalibration_weight [of "example_scenario 0" example_tech 1 "''USA''" example_info 1]
  by (simp add: example_tech_def example_info_def example_scenario_simps
        getEffectiveInternalGains_def)

section \<open>Cloning\<close>

text \<open>
  C10: for every object that owns a live curve, \<open>clone\<close> succeeds and returns an object
  whose eight configuration members (\<open>phaseIn\<close>, \<open>fuelShiftRange\<close>, \<open>costReductionRate\<close>,
  \<open>baseCostYear\<close>, \<open>finalReduction\<close>, \<open>finalReductionYear\<close>, \<open>noBelowZero\<close>,
  \<open>curveShiftFuelName\<close>) equal the original's. Its curve is a copy of its own: it lives at
  an address that held no object before and differs from the original's, it has the same
  points, and the original's curve is untouched. For every scenario, region and period the
  clone's \<open>findReduction\<close> returns what the original's returns, and this stays so for
  either object whatever is later stored at, or deleted from, the other object's curve
  address.
\<close>

theorem clone_deep_copy:
  assumes "deref h (macCurve this) = Inr c"
  shows "\<exists>h' that a a'.
           clone h this = Inr (h', that)
           \<and> phaseIn that = phaseIn this
           \<and> fuelShiftRange that = fuelShiftRange this
           \<and> costReductionRate that = costReductionRate this
           \<and> baseCostYear that = baseCostYear this
           \<and> finalReduction that = finalReduction this
           \<and> finalReductionYear that = finalReductionYear this
           \<and> noBelowZero that = noBelowZero this
           \<and> curveShiftFuelName that = curveShiftFuelName this
           \<and> macCurve this = Some a \<and> macCurve that = Some a' \<and> a \<noteq> a'
           \<and> deref h (Some a') = Inl DanglingPointer
           \<and> deref h' (macCurve this) = Inr c
           \<and> (\<exists>c'. deref h' (macCurve that) = Inr c'
                    \<and> getSortedPairs c' = getSortedPairs c)
           \<and> (\<forall>scn regionName period x.
                 findReduction h' scn that regionName period
                   = findReduction h scn this regionName period
                 \<and> findReduction h' scn this regionName period
                   = findReduction h scn this regionName period
                 \<and> findReduction (h'[a' := x]) scn this regionName period
                   = findReduction h scn this regionName period
                 \<and> findReduction (h'[a := x]) scn that regionName period
                   = findReduction h scn this regionName period)"
proof -
  let ?h' = "h @ [Some c]"
  let ?that = "this\<lparr>macCurve := Some (length h)\<rparr>"
  obtain a where a: "macCurve this = Some a" "a < length h" "h ! a = Some c"
    using assms by (auto simp: deref_Inr_iff)
  have cl: "clone h this = Inr (?h', ?that)"
    by (rule clone_deref [OF assms])
  have old: "deref ?h' (macCurve this) = Inr c"
    by (rule deref_append_old [OF assms])
  have new: "deref ?h' (Some (length h)) = Inr c"
    by (rule deref_append_new)
  have fresh: "deref h (Some (length h)) = Inl DanglingPointer"
    by (simp add: deref_def)
  have ne: "a \<noteq> length h"
    using a by simp
  have upd_new: "\<And>x. deref (?h'[length h := x]) (macCurve this) = Inr c"
    using a by (simp add: deref_def nth_append)
  have upd_old: "\<And>x. deref (?h'[a := x]) (Some (length h)) = Inr c"
    using a by (simp add: deref_def nth_append)
  have f1: "\<And>scn regionName period.
              findReduction ?h' scn ?that regionName period
                = findReduction h scn this regionName period"
    by (rule findReduction_cong) (simp add: new assms)
  have f2: "\<And>scn regionName period.
              findReduction ?h' scn this regionName period
                = findReduction h scn this regionName period"
    using findReduction_cong [of ?h' "macCurve this" h this] old assms by simp
  have f3: "\<And>scn regionName period x.
              findReduction (?h'[length h := x]) scn this regionName period
                = findReduction h scn this regionName period"
    using findReduction_cong [of "?h'[length h := x]" "macCurve this" h this for x] upd_new assms
    by simp
  have f4: "\<And>scn regionName period x.
              findReduction (?h'[a := x]) scn ?that regionName period
                = findReduction h scn this regionName period"
    by (rule findReduction_cong) (simp add: upd_old assms)
  show ?thesis
    using cl a(1) old new fresh ne f1 f2 f3 f4 by auto
qed

theorem clone_deep_copy_witness:
  "deref example_heap (macCurve example_mac) = Inr example_curve
   \<and> (\<exists>h' that a a'.
         clone example_heap example_mac = Inr (h', that)
         \<and> macCurve example_mac = Some a \<and> macCurve that = Some a' \<and> a \<noteq> a'
         \<and> (\<exists>c'. deref h' (macCurve that) = Inr c'
                  \<and> getSortedPairs c' = [(0, 0), (100, 1 / 2), (200, 9 / 10)])
         \<and> findReduction h' (example_scenario 150) that ''USA'' 2 = Inr (7 / 10, [])
         \<and> findReduction (h'[a := None]) (example_scenario 150) that ''USA'' 2
             = Inr (7 / 10, []))"
proof -
  have d: "deref example_heap (macCurve example_mac) = Inr example_curve"
    by (simp add: example_mac_simps deref_example_heap)
  have v: "findReduction example_heap (example_scenario 150) example_mac ''USA'' 2
             = Inr (7 / 10, [])"
    by (simp add: findReduction_def Let_def bindE_simps example_scenario_simps example_mac_simps
          shiftCostReduction_def adjustPhaseIn_def getMACValue_example_150
          getMACValue_example_200 deref_example_heap example_curve_simps)
  from clone_deep_copy [OF d]
  obtain h' that a a' where
    "clone example_heap example_mac = Inr (h', that)"
    "macCurve example_mac = Some a" "macCurve that = Some a'" "a \<noteq> a'"
    "\<exists>c'. deref h' (macCurve that) = Inr c' \<and> getSortedPairs c' = getSortedPairs example_curve"
    "\<forall>scn regionName period x.
        findReduction h' scn that regionName period
          = findReduction example_heap scn example_mac regionName period
        \<and> findReduction h' scn example_mac regionName period
          = findReduction example_heap scn example_mac regionName period
        \<and> findReduction (h'[a' := x]) scn example_mac regionName period
          = findReduction example_heap scn example_mac regionName period
        \<and> findReduction (h'[a := x]) scn that regionName period
          = findReduction example_heap scn example_mac regionName period"
    by blast
  then have "\<exists>h' that a a'.
         clone example_heap example_mac = Inr (h', that)
         \<and> macCurve example_mac = Some a \<and> macCurve that = Some a' \<and> a \<noteq> a'
         \<and> (\<exists>c'. deref h' (macCurve that) = Inr c'
                  \<and> getSortedPairs c' = [(0, 0), (100, 1 / 2), (200, 9 / 10)])
         \<and> findReduction h' (example_scenario 150) that ''USA'' 2 = Inr (7 / 10, [])
         \<and> findReduction (h'[a := None]) (example_scenario 150) that ''USA'' 2
             = Inr (7 / 10, [])"
    by (simp add: example_curve_simps v)
  then show ?thesis using d by blast
qed

end
